theory Spec2Isabelle
  imports Complex_Main
begin

section \<open>Data model (frontend/src/types/index.ts)\<close>

text \<open>
  The TypeScript interfaces become records. A JavaScript \<open>number\<close> that the code only
  compares or copies is an \<open>int\<close> (indices, counts) or a \<open>rat\<close> (spacings, volumes,
  opacities); \<open>NaN\<close>, which \<open>parseInt\<close> can return, is the \<open>None\<close> of
  \<open>int option\<close>. An optional field is an \<open>option\<close>. A field name that two interfaces
  share, or that is a word of the logic, carries a prefix in the later record.
\<close>

record DicomSeries =
  series_uid :: string
  series_description :: string
  modality :: string
  image_count :: int
  patient_name :: "string option"
  study_date :: "string option"
  rows :: "int option"
  columns :: "int option"
  pixel_spacing :: "rat list option"
  slice_thickness :: "rat option"

record DicomImage =
  index :: int
  instance_number :: int
  slice_location :: "rat option"

record SliceStats =
  slice_index :: int
  visceral_fat_pixels :: int
  subcutaneous_fat_pixels :: int
  visceral_fat_area_cm2 :: rat

record TissueStats =
  total_visceral_fat_volume :: rat
  total_subcutaneous_fat_volume :: rat
  visceral_fat_percentage :: rat
  slice_stats :: "SliceStats list"

record AnalyzedImage =
  analyzed_index :: int
  colored_image_path :: string
  stats :: SliceStats

record AnalysisResult =
  series_id :: string
  result_image_count :: int
  analyzed_images :: "AnalyzedImage list"
  tissue_stats :: TissueStats

record TissueInfo =
  name :: string
  color :: string
  opacity :: rat

record ModelInfo =
  model_series_id :: string
  tissues :: "TissueInfo list"
  slice_count :: int
  dimensions :: "int list"
  voxel_spacing :: "rat list"
  glb_path :: "string option"
  obj_path :: "string option"

text \<open>
  \<open>ViewMode\<close> is the union \<open>'original' | 'analyzed' | '3d'\<close> of string literals. At run
  time it is a string, and \<open>loadViewState\<close> casts whatever the storage holds to it
  without a check, so the model keeps it a string.
\<close>

type_synonym ViewMode = string

datatype ProgressType = start | progress | complete | error

record AnalysisProgress =
  ptype :: ProgressType
  message :: string
  progress_pct :: int
  total_images :: "int option"
  current_image :: "int option"
  step :: "string option"
  data :: "AnalysisResult option"

section \<open>The store (the Zustand store appended to types/index.ts)\<close>

record AppStore =
  series :: "DicomSeries list"
  selectedSeries :: "DicomSeries option"
  analyzedSeriesIds :: "string set"
  modelSeriesIds :: "string set"
  images :: "DicomImage list"
  selectedImageIndex :: int
  analysisResult :: "AnalysisResult option"
  isAnalyzing :: bool
  analysisProgress :: "AnalysisProgress option"
  modelInfo :: "ModelInfo option"
  isGeneratingModel :: bool
  viewMode :: ViewMode
  isLoading :: bool
  uploadMessage :: "string option"
  error_msg :: "string option"

definition initial_store :: AppStore where
  "initial_store = \<lparr> series = [], selectedSeries = None, analyzedSeriesIds = {},
     modelSeriesIds = {}, images = [], selectedImageIndex = 0, analysisResult = None,
     isAnalyzing = False, analysisProgress = None, modelInfo = None,
     isGeneratingModel = False, viewMode = ''original'', isLoading = False,
     uploadMessage = None, error_msg = None \<rparr>"

subsection \<open>localStorage\<close>

text \<open>
  \<open>localStorage\<close> is a string-to-string map; \<open>None\<close> is a storage that is unavailable,
  where every access throws and the \<open>try\<close>/\<open>catch\<close> of the two helpers takes over.
\<close>

type_synonym Storage = "(string \<rightharpoonup> string) option"

definition key_selectedSeriesUid :: string where
  "key_selectedSeriesUid = ''vfat_selectedSeriesUid''"

definition key_viewMode :: string where
  "key_viewMode = ''vfat_viewMode''"

definition key_selectedImageIndex :: string where
  "key_selectedImageIndex = ''vfat_selectedImageIndex''"

subsection \<open>JavaScript's \<open>parseInt(s, 10)\<close>, \<open>String(n)\<close>, \<open>Math.max\<close>, \<open>Math.min\<close>\<close>

definition isWhiteSpace :: "char \<Rightarrow> bool" where
  "isWhiteSpace c = (of_char c \<in> {9, 10, 11, 12, 13, 32 :: nat})"

definition isDigit :: "char \<Rightarrow> bool" where
  "isDigit c = (48 \<le> (of_char c :: nat) \<and> (of_char c :: nat) \<le> 57)"

definition digitValue :: "char \<Rightarrow> int" where
  "digitValue c = int (of_char c) - 48"

definition digitsValue :: "string \<Rightarrow> int" where
  "digitsValue ds = foldl (\<lambda>a c. 10 * a + digitValue c) 0 ds"

text \<open>
  \<open>parseInt\<close> skips leading white space, reads an optional sign and then the longest
  run of decimal digits; with no digit the result is \<open>NaN\<close>. (White space beyond ASCII
  and the rounding of values above \<open>2^53\<close> are not modelled: the caller clamps the
  result.)
\<close>

definition parseInt10 :: "string \<Rightarrow> int option" where
  "parseInt10 s =
     (let t = dropWhile isWhiteSpace s;
          neg = (t \<noteq> [] \<and> hd t = CHR ''-'');
          u = (if t \<noteq> [] \<and> (hd t = CHR ''-'' \<or> hd t = CHR ''+'') then tl t else t);
          ds = takeWhile isDigit u
      in if ds = [] then None
         else Some (if neg then - digitsValue ds else digitsValue ds))"

definition Math_max :: "int option \<Rightarrow> int option \<Rightarrow> int option" where
  "Math_max a b = (case (a, b) of (Some x, Some y) \<Rightarrow> Some (max x y) | _ \<Rightarrow> None)"

definition Math_min :: "int option \<Rightarrow> int option \<Rightarrow> int option" where
  "Math_min a b = (case (a, b) of (Some x, Some y) \<Rightarrow> Some (min x y) | _ \<Rightarrow> None)"

fun natDigits :: "nat \<Rightarrow> string" where
  "natDigits n =
     (if n < 10 then [char_of (48 + n)]
      else natDigits (n div 10) @ [char_of (48 + n mod 10)])"

text \<open>
  \<open>String(n)\<close> for an integer: its decimal digits. (From \<open>10^21\<close> on JavaScript
  prints an exponent; the numbers saved are slice indices, far below.)
\<close>

definition String_of :: "int \<Rightarrow> string" where
  "String_of i = (if i < 0 then CHR ''-'' # natDigits (nat (- i)) else natDigits (nat i))"

subsection \<open>\<open>saveViewState\<close> and \<open>loadViewState\<close>\<close>

definition saveViewState :: "string option \<Rightarrow> ViewMode \<Rightarrow> int \<Rightarrow> Storage \<Rightarrow> Storage" where
  "saveViewState seriesUid mode imageIndex ls =
     (case ls of
        None \<Rightarrow> None
      | Some m \<Rightarrow>
          (let m1 = (case seriesUid of
                       None \<Rightarrow> m(key_selectedSeriesUid := None)
                     | Some u \<Rightarrow>
                         if u = [] then m(key_selectedSeriesUid := None)
                         else m(key_selectedSeriesUid \<mapsto> u))
           in Some (m1(key_viewMode \<mapsto> mode,
                       key_selectedImageIndex \<mapsto> String_of imageIndex))))"

record SavedState =
  saved_seriesUid :: "string option"
  saved_viewMode :: ViewMode
  saved_imageIndex :: "int option"

definition loadViewState :: "Storage \<Rightarrow> SavedState" where
  "loadViewState ls =
     (case ls of
        None \<Rightarrow> \<lparr> saved_seriesUid = None, saved_viewMode = ''original'',
                  saved_imageIndex = Some 0 \<rparr>
      | Some m \<Rightarrow>
          \<lparr> saved_seriesUid = m key_selectedSeriesUid,
            saved_viewMode = (case m key_viewMode of
                                None \<Rightarrow> ''original''
                              | Some v \<Rightarrow> if v = [] then ''original'' else v),
            saved_imageIndex = parseInt10 (case m key_selectedImageIndex of
                                             None \<Rightarrow> ''0''
                                           | Some v \<Rightarrow> if v = [] then ''0'' else v) \<rparr>)"

subsection \<open>The backend, as seen through services/api.ts\<close>

text \<open>
  Every call of the API service either resolves with a payload or rejects (HTTP error,
  time-out, network failure). The backend is not part of the client, so its answers are
  a parameter of every action.
\<close>

datatype 'a response = Rejected string | Resolved 'a

record InitData =
  init_series :: "DicomSeries list option"
  analyzed_series :: "string list option"
  model_series :: "string list option"

record Api =
  initializeExistingData :: "InitData response"
  getSeriesImages :: "string \<Rightarrow> DicomImage list response"
  getAnalysisResults :: "string \<Rightarrow> AnalysisResult response"
  getModelInfo :: "string \<Rightarrow> ModelInfo response"

record World =
  store :: AppStore
  localStorage :: Storage

text \<open>\<open>try { x = await call } catch { }\<close> around a variable initialised to \<open>null\<close>.\<close>

definition orNull :: "'a response \<Rightarrow> 'a option" where
  "orNull r = (case r of Rejected _ \<Rightarrow> None | Resolved x \<Rightarrow> Some x)"

definition truthy :: "string option \<Rightarrow> bool" where
  "truthy s = (case s of None \<Rightarrow> False | Some v \<Rightarrow> v \<noteq> [])"

subsection \<open>\<open>initialize\<close>\<close>

definition restoredViewMode ::
  "ViewMode \<Rightarrow> AnalysisResult option \<Rightarrow> ModelInfo option \<Rightarrow> ViewMode" where
  "restoredViewMode saved ar mi =
     (let vm1 = (if saved = ''analyzed'' \<and> ar = None then ''original'' else saved);
          vm2 = (if vm1 = ''3d'' \<and> mi = None
                 then (if ar \<noteq> None then ''analyzed'' else ''original'')
                 else vm1)
      in vm2)"

definition restoredImageIndex :: "int option \<Rightarrow> DicomImage list \<Rightarrow> int" where
  "restoredImageIndex saved imgs =
     (let imageIndex = Math_min (Math_max (Some 0) saved) (Some (int (length imgs) - 1))
      in case imageIndex of
           None \<Rightarrow> 0
         | Some i \<Rightarrow> if i \<ge> 0 then i else 0)"

definition initialize :: "Api \<Rightarrow> World \<Rightarrow> World" where
  "initialize api w =
     (let s0 = (store w)\<lparr> isLoading := True, error_msg := None \<rparr>
      in case initializeExistingData api of
           Rejected _ \<Rightarrow> w\<lparr> store := s0\<lparr> isLoading := False \<rparr> \<rparr>
         | Resolved result \<Rightarrow>
             (let seriesData = (case init_series result of Some xs \<Rightarrow> xs | None \<Rightarrow> []);
                  analyzedIds = (case analyzed_series result of Some xs \<Rightarrow> set xs | None \<Rightarrow> {});
                  modelIds = (case model_series result of Some xs \<Rightarrow> set xs | None \<Rightarrow> {});
                  s1 = s0\<lparr> series := seriesData, analyzedSeriesIds := analyzedIds,
                           modelSeriesIds := modelIds, isLoading := False \<rparr>;
                  savedState = loadViewState (localStorage w)
              in if truthy (saved_seriesUid savedState) \<and> seriesData \<noteq> [] then
                   (case find (\<lambda>s. Some (series_uid s) = saved_seriesUid savedState) seriesData of
                      None \<Rightarrow> w\<lparr> store := s1 \<rparr>
                    | Some savedSeries \<Rightarrow>
                        (let s2 = s1\<lparr> isLoading := True, selectedSeries := Some savedSeries \<rparr>
                         in case getSeriesImages api (series_uid savedSeries) of
                              Rejected _ \<Rightarrow> w\<lparr> store := s2\<lparr> isLoading := False \<rparr> \<rparr>
                            | Resolved imgs \<Rightarrow>
                                (let ar = orNull (getAnalysisResults api (series_uid savedSeries));
                                     mi = orNull (getModelInfo api (series_uid savedSeries));
                                     vm = restoredViewMode (saved_viewMode savedState) ar mi;
                                     ix = restoredImageIndex (saved_imageIndex savedState) imgs
                                 in w\<lparr> store := s2\<lparr> images := imgs, selectedImageIndex := ix,
                                                      analysisResult := ar, modelInfo := mi,
                                                      viewMode := vm, isLoading := False \<rparr> \<rparr>)))
                 else w\<lparr> store := s1 \<rparr>))"

subsection \<open>\<open>selectSeries\<close>\<close>

text \<open>A rejected call carries the message of the \<open>Error\<close> that axios throws.\<close>

definition selectSeries :: "Api \<Rightarrow> DicomSeries \<Rightarrow> World \<Rightarrow> World" where
  "selectSeries api sel w =
     (let s0 = (store w)\<lparr> isLoading := True, error_msg := None, selectedSeries := Some sel \<rparr>
      in case getSeriesImages api (series_uid sel) of
           Rejected msg \<Rightarrow> w\<lparr> store := s0\<lparr> error_msg := Some msg, isLoading := False \<rparr> \<rparr>
         | Resolved imgs \<Rightarrow>
             (let ar = orNull (getAnalysisResults api (series_uid sel));
                  mi = orNull (getModelInfo api (series_uid sel));
                  newAnalyzedIds = (if ar \<noteq> None
                                    then insert (series_uid sel) (analyzedSeriesIds s0)
                                    else analyzedSeriesIds s0);
                  newModelIds = (if mi \<noteq> None
                                 then insert (series_uid sel) (modelSeriesIds s0)
                                 else modelSeriesIds s0);
                  vm = (if ar \<noteq> None then ''analyzed'' else ''original'')
              in \<lparr> store = s0\<lparr> images := imgs, selectedImageIndex := 0,
                                  analysisResult := ar, modelInfo := mi, viewMode := vm,
                                  analyzedSeriesIds := newAnalyzedIds,
                                  modelSeriesIds := newModelIds, isLoading := False \<rparr>,
                   localStorage = saveViewState (Some (series_uid sel)) vm 0 (localStorage w) \<rparr>))"

subsection \<open>\<open>analyzeSeries\<close>: the start and the progress callback\<close>

definition analyzeSeries_start :: "World \<Rightarrow> World" where
  "analyzeSeries_start w =
     (case selectedSeries (store w) of
        None \<Rightarrow> w
      | Some sel \<Rightarrow>
          w\<lparr> store := (store w)\<lparr> isAnalyzing := True, error_msg := None,
                                   analysisProgress := None, modelInfo := None,
                                   modelSeriesIds := modelSeriesIds (store w) - {series_uid sel} \<rparr> \<rparr>)"

text \<open>
  The callback handed to \<open>analyzeSeriesWithProgress\<close>. The series is the one captured
  when the analysis started, so its uid is a parameter. \<open>resolve()\<close> settles the promise
  of \<open>analyzeSeries\<close>; it changes no store field.
\<close>

definition onProgress :: "string \<Rightarrow> AnalysisProgress \<Rightarrow> World \<Rightarrow> World" where
  "onProgress uid p w =
     (let s1 = (store w)\<lparr> analysisProgress := Some p \<rparr>
      in if ptype p = complete \<and> data p \<noteq> None then
           \<lparr> store = s1\<lparr> analysisResult := data p, isAnalyzing := False,
                           analysisProgress := None,
                           analyzedSeriesIds := insert uid (analyzedSeriesIds s1),
                           viewMode := ''analyzed'' \<rparr>,
             localStorage = saveViewState (Some uid) ''analyzed'' (selectedImageIndex s1)
                              (localStorage w) \<rparr>
         else if ptype p = error then
           w\<lparr> store := s1\<lparr> error_msg := Some (message p), isAnalyzing := False,
                              analysisProgress := None \<rparr> \<rparr>
         else w\<lparr> store := s1 \<rparr>)"

text \<open>The callback runs once for each event, in the order of delivery.\<close>

definition deliver :: "string \<Rightarrow> AnalysisProgress list \<Rightarrow> World \<Rightarrow> World" where
  "deliver uid es w = foldl (\<lambda>w' e. onProgress uid e w') w es"

text \<open>
  The events that end an analysis for the callback: a \<open>complete\<close> that carries a payload,
  or an \<open>error\<close>.
\<close>

definition terminal :: "AnalysisProgress \<Rightarrow> bool" where
  "terminal p = ((ptype p = complete \<and> data p \<noteq> None) \<or> ptype p = error)"

fun upToFirstTerminal :: "AnalysisProgress list \<Rightarrow> AnalysisProgress list" where
  "upToFirstTerminal [] = []"
| "upToFirstTerminal (e # es) = (if terminal e then [e] else e # upToFirstTerminal es)"

subsection \<open>\<open>generateModel\<close>: the start and the polling\<close>

record StatusResponse =
  st_status :: string
  st_progress :: int
  st_message :: string
  st_data :: "ModelInfo option"
  st_error :: "string option"

text \<open>
  \<open>pollStatus\<close> runs once per timer tick. The list holds the answers of the status
  endpoint to the successive polls. The result says whether a
  \<open>setTimeout(pollStatus, 1000)\<close> is pending when the known answers are used up
  (\<open>True\<close>: the client is still polling; \<open>False\<close>: polling has ended).
\<close>

fun pollStatus :: "StatusResponse response list \<Rightarrow> World \<Rightarrow> World \<times> bool" where
  "pollStatus [] w =
     (case selectedSeries (store w) of
        None \<Rightarrow> (w, False)
      | Some cur \<Rightarrow> if \<not> isGeneratingModel (store w) then (w, False) else (w, True))"
| "pollStatus (r # rs) w =
     (case selectedSeries (store w) of
        None \<Rightarrow> (w, False)
      | Some cur \<Rightarrow>
          if \<not> isGeneratingModel (store w) then (w, False)
          else (case r of
                  Rejected _ \<Rightarrow> pollStatus rs w
                | Resolved st \<Rightarrow>
                    if st_status st = ''complete'' \<and> st_data st \<noteq> None then
                      (\<lparr> store = (store w)\<lparr> modelInfo := st_data st,
                                             isGeneratingModel := False,
                                             modelSeriesIds :=
                                               insert (series_uid cur) (modelSeriesIds (store w)),
                                             viewMode := ''3d'' \<rparr>,
                         localStorage = saveViewState (Some (series_uid cur)) ''3d''
                                          (selectedImageIndex (store w)) (localStorage w) \<rparr>,
                       False)
                    else if st_status st = ''error'' then
                      (w\<lparr> store := (store w)\<lparr>
                            error_msg := Some (if st_message st \<noteq> [] then st_message st
                                               else ''Model generation failed''),
                            isGeneratingModel := False \<rparr> \<rparr>,
                       False)
                    else if st_status st = ''generating'' then pollStatus rs w
                    else (w, False)))"

definition generateModel ::
  "unit response \<Rightarrow> StatusResponse response list \<Rightarrow> World \<Rightarrow> World \<times> bool" where
  "generateModel started polls w =
     (case selectedSeries (store w) of
        None \<Rightarrow> (w, False)
      | Some sel \<Rightarrow>
          (let w0 = w\<lparr> store := (store w)\<lparr> isGeneratingModel := True, error_msg := None \<rparr> \<rparr>
           in case started of
                Rejected msg \<Rightarrow>
                  (w0\<lparr> store := (store w0)\<lparr> error_msg := Some msg,
                                              isGeneratingModel := False \<rparr> \<rparr>, False)
              | Resolved _ \<Rightarrow> pollStatus polls w0))"

text \<open>
  The legacy \<open>generateModel\<close> of the API service (services/api.ts): it polls in a
  \<open>while (true)\<close> loop and returns the model or throws. With the known answers used up
  it is still in the loop.
\<close>

datatype LegacyResult = Returned ModelInfo | Threw string | StillPolling

fun api_pollLoop :: "StatusResponse response list \<Rightarrow> LegacyResult" where
  "api_pollLoop [] = StillPolling"
| "api_pollLoop (Rejected msg # rs) = Threw msg"
| "api_pollLoop (Resolved st # rs) =
     (case (if st_status st = ''complete'' then st_data st else None) of
        Some info \<Rightarrow> Returned info
      | None \<Rightarrow>
          if st_status st = ''error'' then
            Threw (if st_message st \<noteq> [] then st_message st else ''Model generation failed'')
          else api_pollLoop rs)"

definition api_generateModel ::
  "unit response \<Rightarrow> StatusResponse response list \<Rightarrow> LegacyResult" where
  "api_generateModel started polls =
     (case started of Rejected msg \<Rightarrow> Threw msg | Resolved _ \<Rightarrow> api_pollLoop polls)"

subsection \<open>The clear operations\<close>

definition clearAnalysisAndModels :: "string response \<Rightarrow> World \<Rightarrow> World" where
  "clearAnalysisAndModels ack w =
     (let s0 = (store w)\<lparr> isLoading := True, error_msg := None \<rparr>
      in case ack of
           Rejected msg \<Rightarrow> w\<lparr> store := s0\<lparr> error_msg := Some msg, isLoading := False \<rparr> \<rparr>
         | Resolved _ \<Rightarrow>
             w\<lparr> store := s0\<lparr> analysisResult := None, modelInfo := None,
                                analyzedSeriesIds := {}, modelSeriesIds := {},
                                viewMode := ''original'', isLoading := False,
                                uploadMessage := Some ''Analysis and models cleared!'' \<rparr> \<rparr>)"

definition clearSeriesResults :: "string response \<Rightarrow> World \<Rightarrow> World" where
  "clearSeriesResults ack w =
     (case selectedSeries (store w) of
        None \<Rightarrow> w
      | Some sel \<Rightarrow>
          (let s0 = (store w)\<lparr> isLoading := True, error_msg := None \<rparr>
           in case ack of
                Rejected msg \<Rightarrow> w\<lparr> store := s0\<lparr> error_msg := Some msg, isLoading := False \<rparr> \<rparr>
              | Resolved _ \<Rightarrow>
                  \<lparr> store = s0\<lparr> analysisResult := None, modelInfo := None,
                                  analyzedSeriesIds := analyzedSeriesIds (store w) - {series_uid sel},
                                  modelSeriesIds := modelSeriesIds (store w) - {series_uid sel},
                                  viewMode := ''original'', isLoading := False,
                                  uploadMessage := Some ''Series data cleared!'' \<rparr>,
                    localStorage = saveViewState (Some (series_uid sel)) ''original''
                                     (selectedImageIndex (store w)) (localStorage w) \<rparr>))"

section \<open>The view-mode tabs and the action buttons\<close>

text \<open>
  What a click does is one of the store's actions. A disabled button fires no click
  handler; a button that is not rendered cannot be clicked.
\<close>

datatype UiAction =
    NoAction
  | CallSetViewMode ViewMode
  | CallAnalyzeSeries
  | CallGenerateModel
  | CallClearSeriesResults

record ButtonState =
  label :: string
  isAction :: bool
  disabled :: bool

subsection \<open>components/ui/ViewModeToggle.tsx\<close>

definition handle3DClick :: "AppStore \<Rightarrow> UiAction" where
  "handle3DClick s =
     (if modelInfo s \<noteq> None then CallSetViewMode ''3d''
      else if analysisResult s \<noteq> None \<and> \<not> isGeneratingModel s then CallGenerateModel
      else NoAction)"

definition get3DButtonState :: "AppStore \<Rightarrow> ButtonState" where
  "get3DButtonState s =
     (if isGeneratingModel s then
        \<lparr> label = ''Generating...'', isAction = True, disabled = True \<rparr>
      else if modelInfo s = None then
        \<lparr> label = ''Generate 3D'', isAction = True, disabled = (analysisResult s = None) \<rparr>
      else \<lparr> label = ''3D Model'', isAction = False, disabled = False \<rparr>)"

definition click3DButton :: "AppStore \<Rightarrow> UiAction" where
  "click3DButton s = (if disabled (get3DButtonState s) then NoAction else handle3DClick s)"

subsection \<open>components/ui/ActionButtons.tsx\<close>

text \<open>
  The component renders nothing without a selected series; the "Regenerate 3D" button is
  rendered when \<open>modelInfo\<close> is present and is disabled while a model is generated.
\<close>

definition showRegenerate :: "AppStore \<Rightarrow> bool" where
  "showRegenerate s = (selectedSeries s \<noteq> None \<and> modelInfo s \<noteq> None)"

definition clickRegenerate3D :: "AppStore \<Rightarrow> UiAction" where
  "clickRegenerate3D s =
     (if showRegenerate s \<and> \<not> isGeneratingModel s then CallGenerateModel else NoAction)"

section \<open>The progress stream (services/api.ts, \<open>analyzeSeriesWithProgress\<close>)\<close>

text \<open>
  \<open>buffer.split('\n\n')\<close>: the pieces between the occurrences of two line feeds, found
  from left to right. The result is never empty.
\<close>

definition LF :: char where
  "LF = CHR 0x0A"

fun split_nn :: "string \<Rightarrow> string list" where
  "split_nn [] = [[]]"
| "split_nn [c] = [[c]]"
| "split_nn (a # b # cs) =
     (if a = LF \<and> b = LF then [] # split_nn cs
      else (case split_nn (b # cs) of
              [] \<Rightarrow> [[a]]
            | p # ps \<Rightarrow> (a # p) # ps))"

definition startsWith :: "string \<Rightarrow> string \<Rightarrow> bool" where
  "startsWith line pre = (take (length pre) line = pre)"

text \<open>
  \<open>JSON.parse\<close> followed by the cast to \<open>AnalysisProgress\<close> is a parameter: \<open>None\<close> is a
  \<open>SyntaxError\<close>. The function returns the arguments of the calls of the callback, in
  order.
\<close>

fun processLines ::
  "(string \<Rightarrow> AnalysisProgress option) \<Rightarrow> string list \<Rightarrow> AnalysisProgress list" where
  "processLines parse [] = []"
| "processLines parse (line # ls) =
     (if startsWith line ''data: '' then
        (case parse (drop 6 line) of
           None \<Rightarrow> processLines parse ls
         | Some d \<Rightarrow> d # processLines parse ls)
      else processLines parse ls)"

text \<open>
  The \<open>while (true)\<close> loop over \<open>reader.read()\<close>. The chunks are the decoded text of each
  read (the \<open>TextDecoder\<close> runs in streaming mode, so the decoded chunks concatenate to
  the decoded stream); the loop ends when the reader reports \<open>done\<close>, and what is left in
  the buffer is dropped.
\<close>

fun readLoop ::
  "(string \<Rightarrow> AnalysisProgress option) \<Rightarrow> string \<Rightarrow> string list \<Rightarrow> AnalysisProgress list" where
  "readLoop parse buffer [] = []"
| "readLoop parse buffer (chunk # chunks) =
     (let lines = split_nn (buffer @ chunk)
      in processLines parse (butlast lines) @ readLoop parse (last lines) chunks)"

datatype StreamEnd = Done | ReadThrew string string

datatype Fetched = FetchThrew string string | NoBody | Body "string list" StreamEnd

definition errorEvent :: "string \<Rightarrow> AnalysisProgress" where
  "errorEvent msg = \<lparr> ptype = error, message = msg, progress_pct = 0, total_images = None,
     current_image = None, step = None, data = None \<rparr>"

definition onThrow :: "string \<Rightarrow> string \<Rightarrow> AnalysisProgress list" where
  "onThrow ename msg = (if ename \<noteq> ''AbortError'' then [errorEvent msg] else [])"

definition fetchStream ::
  "(string \<Rightarrow> AnalysisProgress option) \<Rightarrow> Fetched \<Rightarrow> AnalysisProgress list" where
  "fetchStream parse f =
     (case f of
        FetchThrew ename msg \<Rightarrow> onThrow ename msg
      | NoBody \<Rightarrow> []
      | Body chunks Done \<Rightarrow> readLoop parse [] chunks
      | Body chunks (ReadThrew ename msg) \<Rightarrow> readLoop parse [] chunks @ onThrow ename msg)"

text \<open>
  The complete frames of a stream: every piece of the text that a blank line ends. The
  piece after the last blank line is not complete.
\<close>

definition completeFrames :: "string \<Rightarrow> string list" where
  "completeFrames text = butlast (split_nn text)"

section \<open>The 3D viewer (components/viewers/ThreeDViewer.tsx, \<open>Model\<close>)\<close>

record Material =
  mat_color :: nat
  mat_opacity :: rat
  mat_transparent :: bool
  mat_doubleSide :: bool
  mat_depthWrite :: bool
  mat_roughness :: rat
  mat_metalness :: rat

text \<open>A mesh of the loaded scene: the node name that the GLB file gives it, and its look.\<close>

record Mesh =
  mesh_name :: string
  mesh_visible :: bool
  mesh_material :: Material

definition tissueOrder :: "string list" where
  "tissueOrder = [''body'', ''visceral_fat'', ''organs'']"

definition tissueColors :: "string \<rightharpoonup> nat" where
  "tissueColors = [''body'' \<mapsto> 0xC8C8C8, ''visceral_fat'' \<mapsto> 0xFFA500,
                   ''subcutaneous_fat'' \<mapsto> 0xFFFF00, ''organs'' \<mapsto> 0x0080FF]"

definition DEFAULT_OPACITY :: "string \<rightharpoonup> rat" where
  "DEFAULT_OPACITY = [''body'' \<mapsto> 35 / 100, ''visceral_fat'' \<mapsto> 1,
                      ''subcutaneous_fat'' \<mapsto> 1, ''organs'' \<mapsto> 1]"

text \<open>\<open>tissueOrder[index]\<close>: \<open>undefined\<close> beyond the end of the array.\<close>

definition tissueKeyAt :: "nat \<Rightarrow> string option" where
  "tissueKeyAt i = (if i < length tissueOrder then Some (tissueOrder ! i) else None)"

text \<open>A key without a colour leaves the material's default colour, white.\<close>

definition newMaterial :: "string \<Rightarrow> rat \<Rightarrow> Material" where
  "newMaterial tissueKey opa =
     \<lparr> mat_color = (case tissueColors tissueKey of Some c \<Rightarrow> c | None \<Rightarrow> 0xFFFFFF),
       mat_opacity = opa, mat_transparent = True,
       mat_doubleSide = True, mat_depthWrite = (opa \<ge> 99 / 100),
       mat_roughness = 7 / 10, mat_metalness = 1 / 10 \<rparr>"

text \<open>The body of \<open>meshes.forEach((mesh, index) => ...)\<close>.\<close>

definition styleMesh :: "(string \<rightharpoonup> rat) \<Rightarrow> nat \<Rightarrow> Mesh \<Rightarrow> Mesh" where
  "styleMesh tissueOpacity i mesh =
     (case tissueKeyAt i of
        None \<Rightarrow> mesh
      | Some tissueKey \<Rightarrow>
          (case tissueOpacity tissueKey of
             None \<Rightarrow> mesh
           | Some opa \<Rightarrow> mesh\<lparr> mesh_visible := (opa > 0),
                               mesh_material := newMaterial tissueKey opa \<rparr>))"

definition updateTissueMaterials :: "(string \<rightharpoonup> rat) \<Rightarrow> Mesh list \<Rightarrow> Mesh list" where
  "updateTissueMaterials tissueOpacity meshes =
     map (\<lambda>(i, mesh). styleMesh tissueOpacity i mesh) (enumerate 0 meshes)"

text \<open>
  The tissue opacity panel of \<open>ThreeDViewer\<close>: one row for each name in
  \<open>modelInfo.tissues\<close>, with the label and the colour of \<open>TISSUE_CONFIG\<close> (the name
  itself and grey for a name that is not configured) and the opacity set for the name
  (1 when none is set). Without a model there is no row.
\<close>

definition TISSUE_CONFIG :: "string \<rightharpoonup> string \<times> string" where
  "TISSUE_CONFIG = [''body'' \<mapsto> (''Body'', ''#C8C8C8''),
                    ''visceral_fat'' \<mapsto> (''Visceral Fat'', ''#FFA500''),
                    ''subcutaneous_fat'' \<mapsto> (''Subcut. Fat'', ''#FFFF00''),
                    ''organs'' \<mapsto> (''Organs/Muscle'', ''#0080FF'')]"

record PanelRow =
  row_tissue :: string
  row_label :: string
  row_color :: string
  row_opacity :: rat

definition panelRow :: "(string \<rightharpoonup> rat) \<Rightarrow> string \<Rightarrow> PanelRow" where
  "panelRow tissueOpacity tissue =
     (let config = (case TISSUE_CONFIG tissue of Some c \<Rightarrow> c | None \<Rightarrow> (tissue, ''#888''))
      in \<lparr> row_tissue = tissue, row_label = fst config, row_color = snd config,
           row_opacity = (case tissueOpacity tissue of Some v \<Rightarrow> v | None \<Rightarrow> 1) \<rparr>)"

definition tissuePanel :: "ModelInfo option \<Rightarrow> (string \<rightharpoonup> rat) \<Rightarrow> PanelRow list" where
  "tissuePanel mi tissueOpacity =
     (let availableTissues = (case mi of None \<Rightarrow> [] | Some m \<Rightarrow> map name (tissues m))
      in map (panelRow tissueOpacity) availableTissues)"

text \<open>
  What the claim asks for instead: the look of a mesh found from its own name. This
  function is not in the source; it states the spec's rule, to compare with the code.
\<close>

definition styleByLabel :: "(string \<rightharpoonup> rat) \<Rightarrow> Mesh \<Rightarrow> Mesh" where
  "styleByLabel tissueOpacity mesh =
     (case (tissueColors (mesh_name mesh), tissueOpacity (mesh_name mesh)) of
        (Some c, Some opa) \<Rightarrow> mesh\<lparr> mesh_visible := (opa > 0),
                                     mesh_material := newMaterial (mesh_name mesh) opa \<rparr>
      | _ \<Rightarrow> mesh)"

section \<open>Statistics (the backend's aggregator)\<close>

text \<open>
  Modelled from the spec: the aggregator that computes the statistics is part of the
  Python backend, which is not among the sources; only the shape of its result
  (\<open>TissueStats\<close>, \<open>SliceStats\<close>) is. The definitions of this section follow the spec's
  section 4.2, over exact rational numbers.
\<close>

text \<open>Modelled from the spec: the pixel spacings and the slice spacing of a volume, in mm.\<close>

record Spacing =
  spacing_x :: rat
  spacing_y :: rat
  spacing_z :: rat

text \<open>
  Modelled from the spec: per-slice area (square cm) = voxel count times the two pixel
  spacings (mm), divided by 100.
\<close>

definition slice_area_cm2 :: "Spacing \<Rightarrow> int \<Rightarrow> rat" where
  "slice_area_cm2 sp voxel_count = of_int voxel_count * spacing_x sp * spacing_y sp / 100"

text \<open>
  Modelled from the spec: per-slice volume (cubic cm) = area times the slice thickness, the
  thickness converted from mm to cm.
\<close>

definition slice_volume_cm3 :: "Spacing \<Rightarrow> int \<Rightarrow> rat" where
  "slice_volume_cm3 sp voxel_count = slice_area_cm2 sp voxel_count * (spacing_z sp / 10)"

text \<open>Modelled from the spec: division, with the division by zero made an error.\<close>

definition checked_div :: "rat \<Rightarrow> rat \<Rightarrow> rat option" where
  "checked_div a b = (if b = 0 then None else Some (a / b))"

text \<open>
  Modelled from the spec: fat distribution percentage = visceral / (visceral +
  subcutaneous) times 100, guarded against division by zero.
\<close>

definition fat_distribution_percentage :: "rat \<Rightarrow> rat \<Rightarrow> rat option" where
  "fat_distribution_percentage visceral subcutaneous =
     (if visceral + subcutaneous = 0 then Some 0
      else map_option (\<lambda>q. q * 100) (checked_div visceral (visceral + subcutaneous)))"

text \<open>
  Modelled from the spec: the statistics of one slice, from its position and its counts
  of visceral and subcutaneous fat voxels.
\<close>

definition sliceStatsOf :: "Spacing \<Rightarrow> nat \<times> int \<times> int \<Rightarrow> SliceStats" where
  "sliceStatsOf sp e =
     (case e of (i, v, s) \<Rightarrow>
        \<lparr> slice_index = int i, visceral_fat_pixels = v, subcutaneous_fat_pixels = s,
          visceral_fat_area_cm2 = slice_area_cm2 sp v \<rparr>)"

text \<open>
  Modelled from the spec: the statistics of a volume, from the counts of visceral and
  subcutaneous fat voxels of each slice. Aggregate volumes are sums over the slices.
\<close>

definition aggregate :: "Spacing \<Rightarrow> (int \<times> int) list \<Rightarrow> TissueStats option" where
  "aggregate sp counts =
     (let tv = sum_list (map (\<lambda>(v, s). slice_volume_cm3 sp v) counts);
          ts = sum_list (map (\<lambda>(v, s). slice_volume_cm3 sp s) counts)
      in case fat_distribution_percentage tv ts of
           None \<Rightarrow> None
         | Some pct \<Rightarrow>
             Some \<lparr> total_visceral_fat_volume = tv, total_subcutaneous_fat_volume = ts,
                    visceral_fat_percentage = pct,
                    slice_stats = map (sliceStatsOf sp) (enumerate 0 counts) \<rparr>)"

section \<open>The artifact store (backend)\<close>

text \<open>
  Modelled from the spec: the store of cached artifacts and the clear endpoint are part
  of the Python backend, which is not among the sources; only the client of the
  endpoint (\<open>clearSeriesResults\<close> of the API service and of the store) is. The
  definitions of this section follow the spec's sections 3, 4.6 and 6.
\<close>

text \<open>
  Modelled from the spec: a volume is an ordered sequence of 2D intensity arrays with
  its spacings.
\<close>

record VolumeModel =
  vm_slices :: "int list list list"
  vm_spacing :: Spacing

text \<open>Modelled from the spec: the status of a job.\<close>

datatype JobStatus = Idle | Running | Complete | Error | Cancelled

text \<open>
  Modelled from the spec: a job has a status, a progress from 0 to 100 and a message; its
  payload on completion is the cached artifact.
\<close>

record Job =
  job_status :: JobStatus
  job_progress :: nat
  job_message :: string

text \<open>
  Modelled from the spec: for each series key the store holds at most one analysis job,
  one model job, one cached analysis result and one cached model (here by its summary);
  the raw volumes are kept beside them.
\<close>

record ArtifactStore =
  volumes :: "string \<rightharpoonup> VolumeModel"
  analysis_jobs :: "string \<rightharpoonup> Job"
  model_jobs :: "string \<rightharpoonup> Job"
  cached_analysis :: "string \<rightharpoonup> AnalysisResult"
  cached_model :: "string \<rightharpoonup> ModelInfo"

text \<open>
  Modelled from the spec: \<open>clearSeries(key)\<close> removes the analysis and model artifacts and
  the jobs of that key only, and does not touch the raw volume.
\<close>

definition clearSeries :: "string \<Rightarrow> ArtifactStore \<Rightarrow> ArtifactStore" where
  "clearSeries key st =
     st\<lparr> analysis_jobs := (analysis_jobs st)(key := None),
         model_jobs := (model_jobs st)(key := None),
         cached_analysis := (cached_analysis st)(key := None),
         cached_model := (cached_model st)(key := None) \<rparr>"

text \<open>
  Modelled from the spec: the endpoint \<open>Clear(series_key)\<close> clears the key and answers
  with an acknowledgement; it never fails for a key that does not exist.
\<close>

definition endpoint_clearSeries ::
  "string \<Rightarrow> ArtifactStore \<Rightarrow> ArtifactStore \<times> string response" where
  "endpoint_clearSeries key st = (clearSeries key st, Resolved ''Series results cleared'')"

text \<open>
  The client together with the backend. \<open>clearSeriesResults_request\<close> is the store
  action \<open>clearSeriesResults\<close> with its request answered by the endpoint: without a
  selected series the action returns before any request is sent.
\<close>

record System =
  client :: World
  backend :: ArtifactStore

definition clearSeriesResults_request :: "System \<Rightarrow> System" where
  "clearSeriesResults_request sys =
     (case selectedSeries (store (client sys)) of
        None \<Rightarrow> sys
      | Some sel \<Rightarrow>
          (case endpoint_clearSeries (series_uid sel) (backend sys) of
             (st, ack) \<Rightarrow> \<lparr> client = clearSeriesResults ack (client sys), backend = st \<rparr>))"

section \<open>Vocabulary of the properties\<close>

text \<open>A key for which the artifact store holds no job and no cached artifact.\<close>

definition noArtifacts :: "string \<Rightarrow> ArtifactStore \<Rightarrow> bool" where
  "noArtifacts key st =
     (analysis_jobs st key = None \<and> model_jobs st key = None \<and>
      cached_analysis st key = None \<and> cached_model st key = None)"

text \<open>
  A text has no separator when no two line feeds follow each other in it. A frame is
  written to the stream as its text followed by a blank line, that is, by two line
  feeds; a frame \<open>f\<close> can be read back when \<open>f\<close> followed by one line feed has no
  separator.
\<close>

fun noSep :: "string \<Rightarrow> bool" where
  "noSep (a # b # cs) = (\<not> (a = LF \<and> b = LF) \<and> noSep (b # cs))"
| "noSep [c] = True"
| "noSep [] = True"

definition writeFrames :: "string list \<Rightarrow> string" where
  "writeFrames fs = concat (map (\<lambda>f. f @ [LF, LF]) fs)"

text \<open>
  What one frame contributes to the calls of the callback: its parsed payload when it
  starts with \<open>data: \<close> and parses, nothing otherwise.
\<close>

definition frameHandler ::
  "(string \<Rightarrow> AnalysisProgress option) \<Rightarrow> string \<Rightarrow> AnalysisProgress option" where
  "frameHandler parse line = (if startsWith line ''data: '' then parse (drop 6 line) else None)"

text \<open>The answers of the status endpoint for a job that has not ended.\<close>

definition nonTerminalStatus :: "StatusResponse response \<Rightarrow> bool" where
  "nonTerminalStatus r =
     (case r of
        Rejected _ \<Rightarrow> False
      | Resolved st \<Rightarrow> st_status st = ''queued'' \<or> st_status st = ''generating'')"

section \<open>Startup and sample data\<close>

text \<open>App.tsx calls \<open>initialize\<close> once, when the application starts, on the initial store.\<close>

definition App_startup :: "Api \<Rightarrow> Storage \<Rightarrow> AppStore" where
  "App_startup api ls = store (initialize api \<lparr> store = initial_store, localStorage = ls \<rparr>)"

definition demo_series :: DicomSeries where
  "demo_series = \<lparr> series_uid = ''s1'', series_description = ''abdomen'', modality = ''MR'',
     image_count = 3, patient_name = None, study_date = None, rows = Some 256,
     columns = Some 256, pixel_spacing = Some [1, 1], slice_thickness = Some 2 \<rparr>"

definition demo_images :: "DicomImage list" where
  "demo_images =
     [\<lparr> index = 0, instance_number = 1, slice_location = None \<rparr>,
      \<lparr> index = 1, instance_number = 2, slice_location = None \<rparr>,
      \<lparr> index = 2, instance_number = 3, slice_location = None \<rparr>]"

definition demo_stats :: TissueStats where
  "demo_stats = \<lparr> total_visceral_fat_volume = 6 / 10, total_subcutaneous_fat_volume = 0,
     visceral_fat_percentage = 100, slice_stats = [] \<rparr>"

definition demo_analysis :: AnalysisResult where
  "demo_analysis = \<lparr> series_id = ''s1'', result_image_count = 3, analyzed_images = [],
     tissue_stats = demo_stats \<rparr>"

definition demo_analysis2 :: AnalysisResult where
  "demo_analysis2 = \<lparr> series_id = ''s1'', result_image_count = 4, analyzed_images = [],
     tissue_stats = demo_stats \<rparr>"

definition demo_model :: ModelInfo where
  "demo_model = \<lparr> model_series_id = ''s1'',
     tissues = [\<lparr> name = ''organs'', color = ''#0080FF'', opacity = 1 \<rparr>], slice_count = 3,
     dimensions = [3, 256, 256], voxel_spacing = [2, 1, 1],
     glb_path = Some ''models/s1.glb'', obj_path = None \<rparr>"

definition demo_init :: InitData where
  "demo_init = \<lparr> init_series = Some [demo_series], analyzed_series = Some [''s1''],
     model_series = Some [] \<rparr>"

text \<open>A backend that has the analysis of the series and no model.\<close>

definition api_analyzed :: Api where
  "api_analyzed = \<lparr> initializeExistingData = Resolved demo_init,
     getSeriesImages = (\<lambda>u. Resolved demo_images),
     getAnalysisResults = (\<lambda>u. Resolved demo_analysis),
     getModelInfo = (\<lambda>u. Rejected ''Request failed with status code 404'') \<rparr>"

text \<open>A backend whose analysis request fails while the model request succeeds.\<close>

definition api_model_only :: Api where
  "api_model_only = \<lparr> initializeExistingData = Resolved demo_init,
     getSeriesImages = (\<lambda>u. Resolved demo_images),
     getAnalysisResults = (\<lambda>u. Rejected ''timeout of 60000ms exceeded''),
     getModelInfo = (\<lambda>u. Resolved demo_model) \<rparr>"

definition storage_3d_slice7 :: Storage where
  "storage_3d_slice7 = Some [key_selectedSeriesUid \<mapsto> ''s1'', key_viewMode \<mapsto> ''3d'',
     key_selectedImageIndex \<mapsto> ''7'']"

definition storage_3d_slice1 :: Storage where
  "storage_3d_slice1 = Some [key_selectedSeriesUid \<mapsto> ''s1'', key_viewMode \<mapsto> ''3d'',
     key_selectedImageIndex \<mapsto> ''1'']"

definition world0 :: World where
  "world0 = \<lparr> store = initial_store, localStorage = Some Map.empty \<rparr>"

text \<open>A backend that has neither an analysis nor a model of the series.\<close>

definition api_none :: Api where
  "api_none = \<lparr> initializeExistingData = Resolved demo_init,
     getSeriesImages = (\<lambda>u. Resolved demo_images),
     getAnalysisResults = (\<lambda>u. Rejected ''Request failed with status code 404''),
     getModelInfo = (\<lambda>u. Rejected ''Request failed with status code 404'') \<rparr>"

text \<open>The store after the user has selected the series, for each of the three backends.\<close>

definition world_plain :: World where
  "world_plain = selectSeries api_none demo_series world0"

definition world_selected :: World where
  "world_selected = selectSeries api_analyzed demo_series world0"

definition world_model_only :: World where
  "world_model_only = selectSeries api_model_only demo_series world0"

definition world_analyzing :: World where
  "world_analyzing = analyzeSeries_start world_selected"

definition completeEvent :: "AnalysisResult \<Rightarrow> AnalysisProgress" where
  "completeEvent r = \<lparr> ptype = complete, message = ''Analysis complete'', progress_pct = 100,
     total_images = Some 3, current_image = Some 3, step = None, data = Some r \<rparr>"

definition progressEvent :: "int \<Rightarrow> AnalysisProgress" where
  "progressEvent i = \<lparr> ptype = progress, message = ''Analyzing'', progress_pct = 33 * i,
     total_images = Some 3, current_image = Some i, step = Some ''segment'', data = None \<rparr>"

definition statusOf :: "string \<Rightarrow> ModelInfo option \<Rightarrow> StatusResponse" where
  "statusOf st d = \<lparr> st_status = st, st_progress = 0, st_message = [], st_data = d,
     st_error = None \<rparr>"

definition polls_queued_first :: "StatusResponse response list" where
  "polls_queued_first = [Resolved (statusOf ''queued'' None),
     Resolved (statusOf ''generating'' None),
     Resolved (statusOf ''complete'' (Some demo_model))]"

text \<open>
  A toy parser for the payloads \<open>1\<close>, \<open>2\<close> and \<open>done\<close>, a stream cut at odd places,
  and a stream whose reader throws after the \<open>complete\<close> event has arrived.
\<close>

definition demo_parse :: "string \<Rightarrow> AnalysisProgress option" where
  "demo_parse js = (if js = ''1'' then Some (progressEvent 1)
                    else if js = ''2'' then Some (progressEvent 2)
                    else if js = ''done'' then Some (completeEvent demo_analysis)
                    else None)"

definition stream_broken_after_complete :: Fetched where
  "stream_broken_after_complete =
     Body [''data: done'' @ [LF, LF]] (ReadThrew ''TypeError'' ''network error'')"

definition demo_frames :: "string list" where
  "demo_frames = [''data: 1'', ''data: {oops'', ''event: ping'', ''data: 2'']"

definition demo_chunks :: "string list" where
  "demo_chunks = [''da'', ''ta: 1'' @ [LF], [LF] @ ''data: {oops'' @ [LF, LF] @ ''event: pi'',
     ''ng'' @ [LF], [], [LF] @ ''data: 2'' @ [LF, LF] @ ''data: 3'']"

definition glbMaterial :: Material where
  "glbMaterial = \<lparr> mat_color = 0xFFFFFF, mat_opacity = 1, mat_transparent = True,
     mat_doubleSide = True, mat_depthWrite = False, mat_roughness = 1, mat_metalness = 0 \<rparr>"

definition organs_mesh :: Mesh where
  "organs_mesh = \<lparr> mesh_name = ''organs'', mesh_visible = True, mesh_material = glbMaterial \<rparr>"

definition body_mesh :: Mesh where
  "body_mesh = \<lparr> mesh_name = ''body'', mesh_visible = True, mesh_material = glbMaterial \<rparr>"

definition example_spacing :: Spacing where
  "example_spacing = \<lparr> spacing_x = 1, spacing_y = 1, spacing_z = 2 \<rparr>"

text \<open>A backend that holds the volume of the series and nothing else.\<close>

definition backend_empty :: ArtifactStore where
  "backend_empty = \<lparr> volumes = [''s1'' \<mapsto> \<lparr> vm_slices = [[[0]], [[0]], [[0]]],
                                            vm_spacing = example_spacing \<rparr>],
     analysis_jobs = Map.empty, model_jobs = Map.empty, cached_analysis = Map.empty,
     cached_model = Map.empty \<rparr>"

definition system_plain :: System where
  "system_plain = \<lparr> client = world_plain, backend = backend_empty \<rparr>"

section \<open>Verified properties\<close>

lemmas js_eval = parseInt10_def isWhiteSpace_def isDigit_def digitsValue_def digitValue_def
  Math_max_def Math_min_def key_selectedSeriesUid_def key_viewMode_def
  key_selectedImageIndex_def loadViewState_def truthy_def orNull_def restoredViewMode_def
  restoredImageIndex_def

lemmas demo_eval = demo_init_def demo_series_def demo_images_def demo_analysis_def
  demo_analysis2_def demo_model_def demo_stats_def

lemmas world_eval = world_plain_def world_selected_def world_model_only_def
  world_analyzing_def analyzeSeries_start_def selectSeries_def world0_def initial_store_def
  Let_def api_none_def api_analyzed_def api_model_only_def orNull_def

subsection \<open>Session restore\<close>

lemma restoredImageIndex_bounds:
  "0 \<le> restoredImageIndex saved imgs \<and>
   (imgs \<noteq> [] \<longrightarrow> restoredImageIndex saved imgs \<le> int (length imgs) - 1) \<and>
   (imgs = [] \<longrightarrow> restoredImageIndex saved imgs = 0)"
  by (cases saved) (auto simp: restoredImageIndex_def Math_min_def Math_max_def Let_def)

text \<open>
  C10. Whatever the storage holds (nothing, a negative number, a number that is too
  large, text that is no number) and whatever the backend answers, after the startup
  \<open>initialize\<close> the selected image index is at least 0, is at most
  \<open>images.length - 1\<close> when there are images, and is 0 when there are none.
\<close>

theorem initialize_index_in_bounds:
  "0 \<le> selectedImageIndex (App_startup api ls) \<and>
   (images (App_startup api ls) \<noteq> [] \<longrightarrow>
      selectedImageIndex (App_startup api ls)
        \<le> int (length (images (App_startup api ls))) - 1) \<and>
   (images (App_startup api ls) = [] \<longrightarrow> selectedImageIndex (App_startup api ls) = 0)"
  using restoredImageIndex_bounds
  by (auto simp: App_startup_def initialize_def initial_store_def Let_def
           split: response.splits option.splits)

theorem initialize_index_in_bounds_witness:
  "images (App_startup api_analyzed storage_3d_slice7) \<noteq> [] \<and>
   selectedImageIndex (App_startup api_analyzed storage_3d_slice7) = 2 \<and>
   length (images (App_startup api_analyzed storage_3d_slice7)) = 3"
  using initialize_index_in_bounds [of api_analyzed storage_3d_slice7]
  by (simp add: App_startup_def initialize_def initial_store_def Let_def js_eval
      api_analyzed_def storage_3d_slice7_def demo_eval)

text \<open>
  C9. Whatever the storage holds and whatever the backend answers, after the startup
  \<open>initialize\<close> a view mode \<open>'3d'\<close> comes with a model and a view mode \<open>'analyzed'\<close>
  with an analysis result. A saved mode is valid, in the words of the code, when the
  artifact it shows is there; a saved mode that is not valid falls back: a saved
  \<open>'analyzed'\<close> without a result becomes \<open>'original'\<close>, a saved \<open>'3d'\<close> without a
  model becomes \<open>'analyzed'\<close> when there is a result and \<open>'original'\<close> otherwise. The
  view mode is always the saved one or one of these two.
\<close>

theorem initialize_view_mode_consistent:
  "(viewMode (App_startup api ls) = ''3d'' \<longrightarrow> modelInfo (App_startup api ls) \<noteq> None) \<and>
   (viewMode (App_startup api ls) = ''analyzed''
      \<longrightarrow> analysisResult (App_startup api ls) \<noteq> None) \<and>
   (saved_viewMode (loadViewState ls) = ''analyzed''
      \<and> analysisResult (App_startup api ls) = None
      \<longrightarrow> viewMode (App_startup api ls) = ''original'') \<and>
   (saved_viewMode (loadViewState ls) = ''3d'' \<and> modelInfo (App_startup api ls) = None
      \<longrightarrow> viewMode (App_startup api ls) =
           (if analysisResult (App_startup api ls) \<noteq> None then ''analyzed''
            else ''original'')) \<and>
   (viewMode (App_startup api ls) = saved_viewMode (loadViewState ls) \<or>
    viewMode (App_startup api ls) = ''analyzed'' \<or>
    viewMode (App_startup api ls) = ''original'')"
  by (auto simp: App_startup_def initialize_def initial_store_def Let_def
           restoredViewMode_def
           split: response.splits option.splits)

theorem initialize_view_mode_consistent_witness:
  "saved_viewMode (loadViewState storage_3d_slice1) = ''3d'' \<and>
   modelInfo (App_startup api_analyzed storage_3d_slice1) = None \<and>
   analysisResult (App_startup api_analyzed storage_3d_slice1) \<noteq> None \<and>
   viewMode (App_startup api_analyzed storage_3d_slice1) = ''analyzed''"
  using initialize_view_mode_consistent [of api_analyzed storage_3d_slice1]
  by (simp add: App_startup_def initialize_def initial_store_def Let_def js_eval
      api_analyzed_def storage_3d_slice1_def demo_eval)

subsection \<open>Clearing results\<close>

lemma saveViewState_twice:
  "saveViewState u m i (saveViewState u m i ls) = saveViewState u m i ls"
  by (auto simp: saveViewState_def Let_def split: option.splits)

lemma clearSeriesResults_same_answer:
  "clearSeriesResults ack (clearSeriesResults ack w) = clearSeriesResults ack w"
  by (cases "selectedSeries (store w)"; cases ack)
     (simp_all add: clearSeriesResults_def Let_def saveViewState_twice)

lemma clearSeriesResults_keeps_selection:
  "selectedSeries (store (clearSeriesResults ack w)) = selectedSeries (store w)"
  by (cases "selectedSeries (store w)"; cases ack)
     (simp_all add: clearSeriesResults_def Let_def)

lemma clearSeries_twice: "clearSeries key (clearSeries key st) = clearSeries key st"
  by (simp add: clearSeries_def)

lemma clearSeries_noArtifacts: "noArtifacts key st \<Longrightarrow> clearSeries key st = st"
  by (simp add: clearSeries_def noArtifacts_def fun_upd_idem)

lemma clearSeriesResults_request_twice:
  "clearSeriesResults_request (clearSeriesResults_request sys)
     = clearSeriesResults_request sys"
proof (cases "selectedSeries (store (client sys))")
  case None
  then show ?thesis by (simp add: clearSeriesResults_request_def)
next
  case (Some sel)
  then show ?thesis
    by (simp add: clearSeriesResults_request_def endpoint_clearSeries_def
        clearSeriesResults_keeps_selection clearSeriesResults_same_answer clearSeries_twice)
qed

text \<open>
  C6. Clearing the results of the selected series, the request answered by the backend,
  is idempotent: for every state of client and backend, doing it twice gives the state
  that doing it once gives. The request never fails: with a series selected the action
  ends without an error, whether or not the backend holds anything for the key. When
  the backend holds no job and no artifact for the key and the client has no analysis
  result, no model and no entry for it in the two tracking sets, the backend's store,
  the result, the model and the two tracking sets are left as they were.
\<close>

theorem clearSeriesResults_idempotent:
  "clearSeriesResults_request (clearSeriesResults_request sys)
     = clearSeriesResults_request sys \<and>
   (selectedSeries (store (client sys)) \<noteq> None \<longrightarrow>
      error_msg (store (client (clearSeriesResults_request sys))) = None \<and>
      \<not> isLoading (store (client (clearSeriesResults_request sys)))) \<and>
   (selectedSeries (store (client sys)) = Some sel \<and>
    noArtifacts (series_uid sel) (backend sys) \<and>
    analysisResult (store (client sys)) = None \<and> modelInfo (store (client sys)) = None \<and>
    series_uid sel \<notin> analyzedSeriesIds (store (client sys)) \<and>
    series_uid sel \<notin> modelSeriesIds (store (client sys)) \<longrightarrow>
      backend (clearSeriesResults_request sys) = backend sys \<and>
      analysisResult (store (client (clearSeriesResults_request sys))) = None \<and>
      modelInfo (store (client (clearSeriesResults_request sys))) = None \<and>
      analyzedSeriesIds (store (client (clearSeriesResults_request sys)))
        = analyzedSeriesIds (store (client sys)) \<and>
      modelSeriesIds (store (client (clearSeriesResults_request sys)))
        = modelSeriesIds (store (client sys)))"
proof -
  have a: "selectedSeries (store (client sys)) \<noteq> None \<longrightarrow>
      error_msg (store (client (clearSeriesResults_request sys))) = None \<and>
      \<not> isLoading (store (client (clearSeriesResults_request sys)))"
    by (auto simp: clearSeriesResults_request_def endpoint_clearSeries_def
        clearSeriesResults_def Let_def)
  have b: "selectedSeries (store (client sys)) = Some sel \<and>
    noArtifacts (series_uid sel) (backend sys) \<and>
    analysisResult (store (client sys)) = None \<and> modelInfo (store (client sys)) = None \<and>
    series_uid sel \<notin> analyzedSeriesIds (store (client sys)) \<and>
    series_uid sel \<notin> modelSeriesIds (store (client sys)) \<longrightarrow>
      backend (clearSeriesResults_request sys) = backend sys \<and>
      analysisResult (store (client (clearSeriesResults_request sys))) = None \<and>
      modelInfo (store (client (clearSeriesResults_request sys))) = None \<and>
      analyzedSeriesIds (store (client (clearSeriesResults_request sys)))
        = analyzedSeriesIds (store (client sys)) \<and>
      modelSeriesIds (store (client (clearSeriesResults_request sys)))
        = modelSeriesIds (store (client sys))"
    by (auto simp: clearSeriesResults_request_def endpoint_clearSeries_def
        clearSeriesResults_def Let_def clearSeries_noArtifacts)
  from clearSeriesResults_request_twice a b show ?thesis by blast
qed

theorem clearSeriesResults_idempotent_witness:
  "selectedSeries (store (client system_plain)) = Some demo_series \<and>
   noArtifacts (series_uid demo_series) (backend system_plain) \<and>
   analysisResult (store (client system_plain)) = None \<and>
   modelInfo (store (client system_plain)) = None \<and>
   series_uid demo_series \<notin> analyzedSeriesIds (store (client system_plain)) \<and>
   series_uid demo_series \<notin> modelSeriesIds (store (client system_plain)) \<and>
   backend (clearSeriesResults_request system_plain) = backend_empty \<and>
   error_msg (store (client (clearSeriesResults_request system_plain))) = None \<and>
   analyzedSeriesIds (store (client (clearSeriesResults_request system_plain))) = {} \<and>
   modelSeriesIds (store (client (clearSeriesResults_request system_plain))) = {} \<and>
   clearSeriesResults_request (clearSeriesResults_request system_plain)
     = clearSeriesResults_request system_plain"
proof -
  have h: "selectedSeries (store (client system_plain)) = Some demo_series \<and>
     noArtifacts (series_uid demo_series) (backend system_plain) \<and>
     analysisResult (store (client system_plain)) = None \<and>
     modelInfo (store (client system_plain)) = None \<and>
     series_uid demo_series \<notin> analyzedSeriesIds (store (client system_plain)) \<and>
     series_uid demo_series \<notin> modelSeriesIds (store (client system_plain))"
    by (simp add: system_plain_def backend_empty_def noArtifacts_def world_eval demo_eval)
  have e: "analyzedSeriesIds (store (client system_plain)) = {}"
    "modelSeriesIds (store (client system_plain)) = {}"
    "backend system_plain = backend_empty"
    by (simp_all add: system_plain_def world_eval demo_eval)
  from clearSeriesResults_idempotent [of system_plain demo_series] h e
  show ?thesis by simp
qed

text \<open>
  C7. Neither clear operation touches the series list, the image stack, the selected
  series or the selected image, whatever the backend answers. When the backend
  acknowledges, \<open>clearSeriesResults\<close> on a selected series sets the analysis result and
  the model to null and removes exactly the uid of that series from the two tracking
  sets, and \<open>clearAnalysisAndModels\<close> sets both to null and empties the two sets.
\<close>

theorem clear_operations_frame:
  "series (store (clearSeriesResults ack w)) = series (store w) \<and>
   images (store (clearSeriesResults ack w)) = images (store w) \<and>
   selectedSeries (store (clearSeriesResults ack w)) = selectedSeries (store w) \<and>
   selectedImageIndex (store (clearSeriesResults ack w)) = selectedImageIndex (store w) \<and>
   series (store (clearAnalysisAndModels ack w)) = series (store w) \<and>
   images (store (clearAnalysisAndModels ack w)) = images (store w) \<and>
   selectedSeries (store (clearAnalysisAndModels ack w)) = selectedSeries (store w) \<and>
   selectedImageIndex (store (clearAnalysisAndModels ack w)) = selectedImageIndex (store w) \<and>
   (selectedSeries (store w) = Some sel \<longrightarrow>
      analysisResult (store (clearSeriesResults (Resolved m) w)) = None \<and>
      modelInfo (store (clearSeriesResults (Resolved m) w)) = None \<and>
      analyzedSeriesIds (store (clearSeriesResults (Resolved m) w))
        = analyzedSeriesIds (store w) - {series_uid sel} \<and>
      modelSeriesIds (store (clearSeriesResults (Resolved m) w))
        = modelSeriesIds (store w) - {series_uid sel}) \<and>
   analysisResult (store (clearAnalysisAndModels (Resolved m) w)) = None \<and>
   modelInfo (store (clearAnalysisAndModels (Resolved m) w)) = None \<and>
   analyzedSeriesIds (store (clearAnalysisAndModels (Resolved m) w)) = {} \<and>
   modelSeriesIds (store (clearAnalysisAndModels (Resolved m) w)) = {}"
  by (cases "selectedSeries (store w)"; cases ack)
     (simp_all add: clearSeriesResults_def clearAnalysisAndModels_def Let_def)

theorem clear_operations_frame_witness:
  "selectedSeries (store world_selected) = Some demo_series \<and>
   analysisResult (store world_selected) = Some demo_analysis \<and>
   analyzedSeriesIds (store world_selected) = {''s1''} \<and>
   analysisResult (store (clearSeriesResults (Resolved ''cleared'') world_selected)) = None \<and>
   analyzedSeriesIds (store (clearSeriesResults (Resolved ''cleared'') world_selected)) = {} \<and>
   images (store (clearSeriesResults (Resolved ''cleared'') world_selected)) = demo_images"
  using clear_operations_frame
          [of "Resolved ''cleared''" world_selected demo_series "''cleared''"]
  by (simp add: world_eval demo_eval)

subsection \<open>Starting the model generation\<close>

text \<open>
  C3, as the code has it. Without an analysis result the 3D tab of ViewModeToggle never
  calls \<open>generateModel\<close>, and it is disabled when there is no model either; then no
  button calls it. The "Regenerate 3D" button of ActionButtons calls \<open>generateModel\<close>
  exactly when a series is selected, a model is present and no generation is running:
  it does not look at the analysis result. The store's \<open>generateModel\<close> does not look
  at it either; when the backend rejects the start request, the message is recorded at
  once and no poll is scheduled.
\<close>

theorem toggle_3d_requires_analysis:
  "(analysisResult s = None \<longrightarrow>
      handle3DClick s \<noteq> CallGenerateModel \<and> click3DButton s \<noteq> CallGenerateModel \<and>
      (modelInfo s = None \<longrightarrow>
         disabled (get3DButtonState s) \<and> clickRegenerate3D s \<noteq> CallGenerateModel)) \<and>
   (clickRegenerate3D s = CallGenerateModel \<longleftrightarrow>
      selectedSeries s \<noteq> None \<and> modelInfo s \<noteq> None \<and> \<not> isGeneratingModel s) \<and>
   (selectedSeries (store w) \<noteq> None \<longrightarrow>
      generateModel (Rejected msg) polls w =
        (w\<lparr> store := (store w)\<lparr> error_msg := Some msg, isGeneratingModel := False \<rparr> \<rparr>,
         False))"
  by (auto simp: handle3DClick_def click3DButton_def get3DButtonState_def
        clickRegenerate3D_def showRegenerate_def generateModel_def Let_def)

theorem toggle_3d_requires_analysis_witness:
  "analysisResult (store world_plain) = None \<and> modelInfo (store world_plain) = None \<and>
   selectedSeries (store world_plain) \<noteq> None \<and>
   disabled (get3DButtonState (store world_plain)) \<and>
   click3DButton (store world_plain) = NoAction \<and>
   error_msg (store (fst (generateModel (Rejected ''analysis required first'') []
                            world_plain)))
     = Some ''analysis required first'' \<and>
   \<not> snd (generateModel (Rejected ''analysis required first'') [] world_plain)"
  using toggle_3d_requires_analysis
          [of "store world_plain" world_plain "''analysis required first''" "[]"]
  by (simp add: world_eval demo_eval click3DButton_def)

text \<open>
  The claim as stated fails: after the user selects a series whose analysis request
  failed and whose model request succeeded, the store has a model and no analysis
  result, the "Regenerate 3D" button calls \<open>generateModel\<close>, and with the start request
  accepted the generation is running and a poll is scheduled.
\<close>

theorem regenerate_without_analysis_counterexample:
  "analysisResult (store world_model_only) = None \<and>
   clickRegenerate3D (store world_model_only) = CallGenerateModel \<and>
   isGeneratingModel (store (fst (generateModel (Resolved ()) [] world_model_only))) \<and>
   snd (generateModel (Resolved ()) [] world_model_only)"
  by (simp add: world_eval demo_eval clickRegenerate3D_def showRegenerate_def
      generateModel_def)

subsection \<open>Progress events of an analysis\<close>

lemma onProgress_nonterminal:
  "\<not> terminal p \<Longrightarrow>
   onProgress uid p w = w\<lparr> store := (store w)\<lparr> analysisProgress := Some p \<rparr> \<rparr>"
  by (auto simp: onProgress_def terminal_def Let_def)

lemma deliver_snoc: "deliver uid (es @ [e]) w = onProgress uid e (deliver uid es w)"
  by (simp add: deliver_def)

lemma deliver_nonterminal:
  "\<forall>e\<in>set pre. \<not> terminal e \<Longrightarrow>
   deliver uid pre w =
     w\<lparr> store := (store w)\<lparr> analysisProgress :=
        (if pre = [] then analysisProgress (store w) else Some (last pre)) \<rparr> \<rparr>"
proof (induction pre rule: rev_induct)
  case Nil
  show ?case by (simp add: deliver_def)
next
  case (snoc e pre)
  then show ?case
    by (simp add: deliver_snoc onProgress_nonterminal)
qed

text \<open>
  C4, as the code has it. Take a sequence of events whose only terminal event (a
  \<open>complete\<close> with a payload, or an \<open>error\<close>) is its last one. The events before it,
  payload or not, change nothing but the displayed progress: after each of them the
  analyzing flag, the analysis result, the view mode and the error are what they were.
  On the final \<open>complete\<close> the callback stores the payload as the analysis result,
  switches to the analyzed view, saves that view and clears the analyzing flag; on the
  final \<open>error\<close> it records the message and clears the flag.
\<close>

theorem analysis_events_terminal_last:
  assumes pre: "\<forall>e\<in>set pre. \<not> terminal e" and t: "terminal t"
  shows "(\<forall>n. isAnalyzing (store (deliver uid (take n pre) w)) = isAnalyzing (store w) \<and>
              analysisResult (store (deliver uid (take n pre) w))
                = analysisResult (store w) \<and>
              viewMode (store (deliver uid (take n pre) w)) = viewMode (store w) \<and>
              error_msg (store (deliver uid (take n pre) w)) = error_msg (store w)) \<and>
         (ptype t = complete \<longrightarrow>
            deliver uid (pre @ [t]) w =
              \<lparr> store = (store w)\<lparr> analysisResult := data t, isAnalyzing := False,
                    analysisProgress := None,
                    analyzedSeriesIds := insert uid (analyzedSeriesIds (store w)),
                    viewMode := ''analyzed'' \<rparr>,
                localStorage = saveViewState (Some uid) ''analyzed''
                                 (selectedImageIndex (store w)) (localStorage w) \<rparr>) \<and>
         (ptype t = error \<longrightarrow>
            deliver uid (pre @ [t]) w =
              w\<lparr> store := (store w)\<lparr> error_msg := Some (message t), isAnalyzing := False,
                    analysisProgress := None \<rparr> \<rparr>)"
proof -
  have prefix: "\<forall>e\<in>set (take n pre). \<not> terminal e" for n
    using pre by (meson in_set_takeD)
  have a: "\<forall>n. isAnalyzing (store (deliver uid (take n pre) w)) = isAnalyzing (store w) \<and>
              analysisResult (store (deliver uid (take n pre) w))
                = analysisResult (store w) \<and>
              viewMode (store (deliver uid (take n pre) w)) = viewMode (store w) \<and>
              error_msg (store (deliver uid (take n pre) w)) = error_msg (store w)"
    by (simp add: deliver_nonterminal [OF prefix])
  have b: "ptype t = complete \<longrightarrow>
            deliver uid (pre @ [t]) w =
              \<lparr> store = (store w)\<lparr> analysisResult := data t, isAnalyzing := False,
                    analysisProgress := None,
                    analyzedSeriesIds := insert uid (analyzedSeriesIds (store w)),
                    viewMode := ''analyzed'' \<rparr>,
                localStorage = saveViewState (Some uid) ''analyzed''
                                 (selectedImageIndex (store w)) (localStorage w) \<rparr>"
    using t
    by (auto simp: deliver_snoc deliver_nonterminal [OF pre] onProgress_def terminal_def)
  have c: "ptype t = error \<longrightarrow>
            deliver uid (pre @ [t]) w =
              w\<lparr> store := (store w)\<lparr> error_msg := Some (message t), isAnalyzing := False,
                    analysisProgress := None \<rparr> \<rparr>"
    by (auto simp: deliver_snoc deliver_nonterminal [OF pre] onProgress_def)
  from a b c show ?thesis by blast
qed

theorem analysis_events_terminal_last_witness:
  "\<not> terminal (progressEvent 1) \<and> \<not> terminal (progressEvent 2) \<and>
   terminal (completeEvent demo_analysis) \<and>
   isAnalyzing (store world_analyzing) \<and>
   isAnalyzing (store (deliver ''s1'' [progressEvent 1, progressEvent 2] world_analyzing)) \<and>
   \<not> isAnalyzing (store (deliver ''s1''
        [progressEvent 1, progressEvent 2, completeEvent demo_analysis] world_analyzing)) \<and>
   analysisResult (store (deliver ''s1''
        [progressEvent 1, progressEvent 2, completeEvent demo_analysis] world_analyzing))
     = Some demo_analysis"
proof -
  have h1: "\<forall>e\<in>set [progressEvent 1, progressEvent 2]. \<not> terminal e"
    by (simp add: terminal_def progressEvent_def)
  have h2: "terminal (completeEvent demo_analysis)"
    by (simp add: terminal_def completeEvent_def)
  have pt: "ptype (completeEvent demo_analysis) = complete"
    and dt: "data (completeEvent demo_analysis) = Some demo_analysis"
    by (simp_all add: completeEvent_def)
  have an: "isAnalyzing (store world_analyzing)"
    by (simp add: world_eval demo_eval)
  note inst = analysis_events_terminal_last [OF h1 h2, of "''s1''" world_analyzing]
  from inst
  have "isAnalyzing (store (deliver ''s1'' (take 2 [progressEvent 1, progressEvent 2])
          world_analyzing)) = isAnalyzing (store world_analyzing)"
    by blast
  with an have mid:
    "isAnalyzing (store (deliver ''s1'' [progressEvent 1, progressEvent 2] world_analyzing))"
    by simp
  from inst pt have fin:
    "deliver ''s1'' [progressEvent 1, progressEvent 2, completeEvent demo_analysis]
        world_analyzing =
     \<lparr> store = (store world_analyzing)\<lparr>
           analysisResult := data (completeEvent demo_analysis),
           isAnalyzing := False, analysisProgress := None,
           analyzedSeriesIds := insert ''s1'' (analyzedSeriesIds (store world_analyzing)),
           viewMode := ''analyzed'' \<rparr>,
       localStorage = saveViewState (Some ''s1'') ''analyzed''
                        (selectedImageIndex (store world_analyzing))
                        (localStorage world_analyzing) \<rparr>"
    by simp
  show ?thesis using h1 h2 an mid by (simp add: fin dt)
qed

text \<open>
  The claim as stated fails: the callback does not stop at the first terminal event.
  When the reader throws after the \<open>complete\<close> event has arrived, the stream hands the
  callback a \<open>complete\<close> and then an \<open>error\<close>; the callback acts on both, so the store
  ends with the analysis result, the analyzed view and the error message, where the
  events up to the first terminal one leave no error.
\<close>

theorem analysis_events_counterexample:
  "fetchStream demo_parse stream_broken_after_complete
     = [completeEvent demo_analysis, errorEvent ''network error''] \<and>
   upToFirstTerminal (fetchStream demo_parse stream_broken_after_complete)
     = [completeEvent demo_analysis] \<and>
   analysisResult (store (deliver ''s1''
       (fetchStream demo_parse stream_broken_after_complete) world_analyzing))
     = Some demo_analysis \<and>
   viewMode (store (deliver ''s1''
       (fetchStream demo_parse stream_broken_after_complete) world_analyzing))
     = ''analyzed'' \<and>
   error_msg (store (deliver ''s1''
       (fetchStream demo_parse stream_broken_after_complete) world_analyzing))
     = Some ''network error'' \<and>
   error_msg (store (deliver ''s1''
       (upToFirstTerminal (fetchStream demo_parse stream_broken_after_complete))
       world_analyzing))
     = None"
proof -
  have ev: "fetchStream demo_parse stream_broken_after_complete
              = [completeEvent demo_analysis, errorEvent ''network error'']"
    by (simp add: stream_broken_after_complete_def fetchStream_def onThrow_def LF_def
        startsWith_def demo_parse_def)
  have noerr: "error_msg (store world_analyzing) = None"
    by (simp add: world_eval demo_eval)
  show ?thesis
    unfolding ev
    by (simp add: terminal_def completeEvent_def errorEvent_def deliver_def onProgress_def
        Let_def noerr)
qed

subsection \<open>Polling the model generation\<close>

text \<open>
  The legacy loop of the API service polls through every answer of a job that has not
  ended, \<open>queued\<close> as well as \<open>generating\<close>.
\<close>

lemma api_pollLoop_keeps_polling:
  "\<forall>r\<in>set pre. nonTerminalStatus r \<Longrightarrow> api_pollLoop (pre @ rs) = api_pollLoop rs"
  by (induction pre) (auto simp: nonTerminalStatus_def split: response.splits)

text \<open>The store's \<open>pollStatus\<close> polls through the answers \<open>generating\<close>.\<close>

lemma pollStatus_keeps_polling_while_generating:
  "\<forall>r\<in>set pre. \<exists>st. r = Resolved st \<and> st_status st = ''generating'' \<Longrightarrow>
   pollStatus (pre @ rs) w = pollStatus rs w"
proof (induction pre)
  case Nil
  show ?case by simp
next
  case (Cons r pre)
  then obtain st where "r = Resolved st" and "st_status st = ''generating''" by auto
  with Cons show ?case
    by (cases rs) (auto split: option.splits)
qed

text \<open>
  C5. The claim asks the client to keep polling while the job is \<open>queued\<close> or
  \<open>generating\<close>. The store's \<open>pollStatus\<close> has no branch for \<open>queued\<close>: when the first
  answer is \<open>queued\<close> it schedules no further poll, so the later \<open>complete\<close> is never
  read, the generating flag stays set and no model is stored. On the same answers the
  legacy loop of the API service returns the model.
\<close>

theorem pollStatus_stops_on_queued:
  "generateModel (Resolved ()) polls_queued_first world_selected =
     (world_selected\<lparr> store := (store world_selected)\<lparr> isGeneratingModel := True \<rparr> \<rparr>,
      False) \<and>
   modelInfo (store (fst (generateModel (Resolved ()) polls_queued_first world_selected)))
     = None \<and>
   api_generateModel (Resolved ()) polls_queued_first = Returned demo_model"
  by (simp add: generateModel_def polls_queued_first_def statusOf_def world_eval demo_eval
      api_generateModel_def)

subsection \<open>The progress stream\<close>

lemma split_nn_nonempty: "split_nn xs \<noteq> []"
  by (induction xs rule: split_nn.induct) (auto split: list.splits)

lemma split_nn_single: "split_nn xs = [p] \<Longrightarrow> p = xs"
proof (induction xs arbitrary: p rule: split_nn.induct)
  case 1
  then show ?case by simp
next
  case (2 c)
  then show ?case by simp
next
  case (3 a b cs)
  show ?case
  proof (cases "a = LF \<and> b = LF")
    case True
    with "3.prems" split_nn_nonempty [of cs] show ?thesis by simp
  next
    case False
    obtain q qs where q: "split_nn (b # cs) = q # qs"
      using split_nn_nonempty [of "b # cs"] by (cases "split_nn (b # cs)") auto
    with False "3.prems" have "qs = []" and "p = a # q" by auto
    with "3.IH"(2) [OF False, of q] q show ?thesis by simp
  qed
qed

lemma split_nn_cons:
  "\<not> (a = LF \<and> b = LF) \<Longrightarrow> split_nn (b # zs) = p # ps \<Longrightarrow>
   split_nn (a # b # zs) = (a # p) # ps"
  by simp

lemma split_nn_append_single:
  "split_nn xs = [xs] \<Longrightarrow>
   split_nn (xs @ ys) = butlast (split_nn xs) @ split_nn (last (split_nn xs) @ ys)"
  by simp

lemma split_nn_append_many:
  "p # (butlast (r # rs) @ R (last (r # rs) @ ys))
     = butlast (p # r # rs) @ R (last (p # r # rs) @ ys)"
  by simp

lemma split_nn_append:
  "split_nn (xs @ ys) = butlast (split_nn xs) @ split_nn (last (split_nn xs) @ ys)"
proof (induction xs rule: split_nn.induct)
  case 1
  show ?case by simp
next
  case (2 c)
  show ?case by simp
next
  case (3 a b cs)
  show ?case
  proof (cases "a = LF \<and> b = LF")
    case True
    have "split_nn ((a # b # cs) @ ys) = [] # split_nn (cs @ ys)"
      using True by simp
    also have "\<dots> = [] # (butlast (split_nn cs) @ split_nn (last (split_nn cs) @ ys))"
      using "3.IH"(1) [OF True] by simp
    also have "\<dots> = butlast (split_nn (a # b # cs)) @
                       split_nn (last (split_nn (a # b # cs)) @ ys)"
      using True split_nn_nonempty [of cs] by simp
    finally show ?thesis .
  next
    case False
    obtain q qs where q: "split_nn (b # cs) = q # qs"
      using split_nn_nonempty [of "b # cs"] by (cases "split_nn (b # cs)") auto
    have ih: "split_nn (b # (cs @ ys)) =
                butlast (q # qs) @ split_nn (last (q # qs) @ ys)"
      using "3.IH"(2) [OF False] q by simp
    have whole: "split_nn (a # b # cs) = (a # q) # qs"
      using split_nn_cons [OF False q] .
    show ?thesis
    proof (cases qs)
      case Nil
      with q have "q = b # cs" using split_nn_single by blast
      with whole Nil have "split_nn (a # b # cs) = [a # b # cs]" by simp
      then show ?thesis by (rule split_nn_append_single)
    next
      case (Cons r rs)
      with ih have "split_nn (b # (cs @ ys)) =
                      q # (butlast (r # rs) @ split_nn (last (r # rs) @ ys))"
        by simp
      from split_nn_cons [OF False this]
      have "split_nn ((a # b # cs) @ ys) =
              (a # q) # (butlast (r # rs) @ split_nn (last (r # rs) @ ys))"
        by simp
      also have "\<dots> = butlast (split_nn (a # b # cs)) @
                         split_nn (last (split_nn (a # b # cs)) @ ys)"
        unfolding whole Cons by (rule split_nn_append_many)
      finally show ?thesis .
    qed
  qed
qed

lemma processLines_append:
  "processLines parse (xs @ ys) = processLines parse xs @ processLines parse ys"
  by (induction xs) (auto split: option.splits)

lemma processLines_map_filter:
  "processLines parse ls = List.map_filter (frameHandler parse) ls"
  by (induction ls) (auto simp: List.map_filter_simps frameHandler_def split: option.splits)

lemma readLoop_buffer:
  "processLines parse (butlast (split_nn buf)) @ readLoop parse (last (split_nn buf)) chunks
   = processLines parse (butlast (split_nn (buf @ concat chunks)))"
proof (induction chunks arbitrary: buf)
  case Nil
  show ?case by simp
next
  case (Cons c cs)
  have sp: "split_nn (buf @ c) = butlast (split_nn buf) @ split_nn (last (split_nn buf) @ c)"
    by (rule split_nn_append)
  have bl: "butlast (split_nn (buf @ c)) =
              butlast (split_nn buf) @ butlast (split_nn (last (split_nn buf) @ c))"
    by (simp add: sp butlast_append split_nn_nonempty)
  have la: "last (split_nn (buf @ c)) = last (split_nn (last (split_nn buf) @ c))"
    by (simp add: sp split_nn_nonempty)
  have "processLines parse (butlast (split_nn buf)) @
          readLoop parse (last (split_nn buf)) (c # cs)
        = processLines parse (butlast (split_nn (buf @ c))) @
            readLoop parse (last (split_nn (buf @ c))) cs"
    by (simp add: Let_def bl la processLines_append)
  also have "\<dots> = processLines parse (butlast (split_nn ((buf @ c) @ concat cs)))"
    by (rule Cons.IH)
  finally show ?case by simp
qed

lemma readLoop_whole:
  "readLoop parse [] chunks = processLines parse (completeFrames (concat chunks))"
  using readLoop_buffer [of parse "[]" chunks] by (simp add: completeFrames_def)

lemma split_nn_frame:
  "noSep (f @ [LF]) \<Longrightarrow> split_nn (f @ LF # LF # rest) = f # split_nn rest"
proof (induction f rule: noSep.induct)
  case (1 a b cs)
  then show ?case by simp
next
  case (2 c)
  then show ?case by simp
next
  case 3
  show ?case by simp
qed

lemma split_nn_noSep: "noSep t \<Longrightarrow> split_nn t = [t]"
  by (induction t rule: noSep.induct) auto

lemma split_nn_writeFrames:
  "\<forall>f\<in>set fs. noSep (f @ [LF]) \<Longrightarrow> split_nn (writeFrames fs @ rest) = fs @ split_nn rest"
  by (induction fs) (simp_all add: writeFrames_def split_nn_frame)

text \<open>
  C8. For every stream, however it is cut into chunks and with the reader ending
  normally, the calls of the callback are the parsed payloads of the complete frames of
  the whole text that start with \<open>data: \<close> and parse, one call for each such frame, in
  the order of the stream; a frame that does not parse is skipped and the frames after
  it are still handled. So two ways of cutting the same text give the same calls. In
  particular, when the text is a list of frames, each followed by a blank line, and an
  unfinished rest, the calls are those of the frames of that list.
\<close>

theorem progress_stream_frames:
  "fetchStream parse (Body chunks Done)
     = List.map_filter (frameHandler parse) (completeFrames (concat chunks)) \<and>
   (concat chunks = concat chunks' \<longrightarrow>
      fetchStream parse (Body chunks Done) = fetchStream parse (Body chunks' Done)) \<and>
   ((\<forall>f\<in>set fs. noSep (f @ [LF])) \<and> noSep rest \<and> concat chunks = writeFrames fs @ rest
      \<longrightarrow> fetchStream parse (Body chunks Done) = List.map_filter (frameHandler parse) fs)"
  by (simp add: fetchStream_def readLoop_whole processLines_map_filter completeFrames_def
      split_nn_writeFrames split_nn_noSep)

theorem progress_stream_frames_witness:
  "list_all (\<lambda>f. noSep (f @ [LF])) demo_frames \<and> noSep ''data: 3'' \<and>
   concat demo_chunks = writeFrames demo_frames @ ''data: 3'' \<and>
   fetchStream demo_parse (Body demo_chunks Done) = [progressEvent 1, progressEvent 2]"
proof -
  have h1: "\<forall>f\<in>set demo_frames. noSep (f @ [LF])"
    by (simp add: demo_frames_def LF_def)
  have h2: "noSep ''data: 3''"
    by (simp add: LF_def)
  have h3: "concat demo_chunks = writeFrames demo_frames @ ''data: 3''"
    by (simp add: demo_chunks_def demo_frames_def writeFrames_def)
  have r: "List.map_filter (frameHandler demo_parse) demo_frames
             = [progressEvent 1, progressEvent 2]"
    by (simp add: List.map_filter_simps frameHandler_def startsWith_def demo_parse_def
        demo_frames_def)
  from progress_stream_frames
         [of demo_parse demo_chunks demo_chunks demo_frames "''data: 3''"] h1 h2 h3
  have "fetchStream demo_parse (Body demo_chunks Done)
          = List.map_filter (frameHandler demo_parse) demo_frames"
    by blast
  with h1 h2 h3 r show ?thesis by (simp add: list_all_iff)
qed

subsection \<open>Tissue identity in the 3D viewer\<close>

lemma updateTissueMaterials_length [simp]:
  "length (updateTissueMaterials tissueOpacity ms) = length ms"
  by (simp add: updateTissueMaterials_def)

lemma updateTissueMaterials_nth:
  "i < length ms \<Longrightarrow>
   updateTissueMaterials tissueOpacity ms ! i = styleMesh tissueOpacity i (ms ! i)"
  by (simp add: updateTissueMaterials_def nth_enumerate_eq)

lemma styleMesh_name: "mesh_name (styleMesh tissueOpacity i m) = mesh_name m"
  by (simp add: styleMesh_def split: option.splits)

lemma styleMesh_look:
  "mesh_visible m = mesh_visible m' \<Longrightarrow> mesh_material m = mesh_material m' \<Longrightarrow>
   mesh_visible (styleMesh tissueOpacity i m) = mesh_visible (styleMesh tissueOpacity i m') \<and>
   mesh_material (styleMesh tissueOpacity i m) = mesh_material (styleMesh tissueOpacity i m')"
  by (simp add: styleMesh_def split: option.splits)

lemma updateTissueMaterials_look:
  assumes len: "length ms' = length ms"
    and same: "\<forall>i<length ms. mesh_visible (ms' ! i) = mesh_visible (ms ! i) \<and>
                               mesh_material (ms' ! i) = mesh_material (ms ! i)"
    and i: "i < length ms"
  shows "mesh_visible (updateTissueMaterials tissueOpacity ms' ! i)
           = mesh_visible (updateTissueMaterials tissueOpacity ms ! i) \<and>
         mesh_material (updateTissueMaterials tissueOpacity ms' ! i)
           = mesh_material (updateTissueMaterials tissueOpacity ms ! i)"
proof -
  from same i have v: "mesh_visible (ms' ! i) = mesh_visible (ms ! i)"
    and m: "mesh_material (ms' ! i) = mesh_material (ms ! i)"
    by blast+
  have i': "i < length ms'" using i len by simp
  show ?thesis
    unfolding updateTissueMaterials_nth [OF i] updateTissueMaterials_nth [OF i']
    by (rule styleMesh_look [OF v m])
qed

text \<open>
  C1, as the code has it. In \<open>Model\<close> the tissue of a mesh is the entry of
  \<open>['body', 'visceral_fat', 'organs']\<close> at the position of the mesh in the list of
  meshes: a mesh at position \<open>i < 3\<close> whose key has an opacity entry gets the colour of
  that key and that opacity, and is visible when the opacity is positive; every other
  mesh is left as it is. The names of the meshes are kept and never read: two lists
  that differ only in the names of their meshes get the same materials and the same
  visibility. The rows of the tissue opacity panel are the tissue names of the model
  information, in their order.
\<close>

theorem tissue_identity_by_position:
  assumes len: "length ms' = length ms"
    and same: "\<forall>i<length ms. mesh_visible (ms' ! i) = mesh_visible (ms ! i) \<and>
                               mesh_material (ms' ! i) = mesh_material (ms ! i)"
  shows "length (updateTissueMaterials tissueOpacity ms) = length ms \<and>
         map mesh_name (updateTissueMaterials tissueOpacity ms) = map mesh_name ms \<and>
         map mesh_material (updateTissueMaterials tissueOpacity ms')
           = map mesh_material (updateTissueMaterials tissueOpacity ms) \<and>
         map mesh_visible (updateTissueMaterials tissueOpacity ms')
           = map mesh_visible (updateTissueMaterials tissueOpacity ms) \<and>
         (\<forall>i<length ms. \<forall>v. i < length tissueOrder \<and>
                              tissueOpacity (tissueOrder ! i) = Some v \<longrightarrow>
            mesh_material (updateTissueMaterials tissueOpacity ms ! i)
              = newMaterial (tissueOrder ! i) v \<and>
            mesh_visible (updateTissueMaterials tissueOpacity ms ! i) = (v > 0)) \<and>
         (\<forall>i<length ms. i \<ge> length tissueOrder \<or> tissueOpacity (tissueOrder ! i) = None
            \<longrightarrow> updateTissueMaterials tissueOpacity ms ! i = ms ! i) \<and>
         map row_tissue (tissuePanel (Some mi) tissueOpacity) = map name (tissues mi)"
proof -
  have l: "length (updateTissueMaterials tissueOpacity ms) = length ms"
    by simp
  have r: "map row_tissue (tissuePanel (Some mi) tissueOpacity) = map name (tissues mi)"
    by (simp add: tissuePanel_def panelRow_def Let_def comp_def)
  have n: "map mesh_name (updateTissueMaterials tissueOpacity ms) = map mesh_name ms"
    by (rule nth_equalityI) (simp_all add: updateTissueMaterials_nth styleMesh_name)
  have m: "map mesh_material (updateTissueMaterials tissueOpacity ms')
             = map mesh_material (updateTissueMaterials tissueOpacity ms)"
  proof (rule nth_equalityI)
    show "length (map mesh_material (updateTissueMaterials tissueOpacity ms'))
            = length (map mesh_material (updateTissueMaterials tissueOpacity ms))"
      by (simp add: len)
  next
    fix i
    assume "i < length (map mesh_material (updateTissueMaterials tissueOpacity ms'))"
    then have i: "i < length ms" by (simp add: len)
    then have i': "i < length ms'" by (simp add: len)
    from updateTissueMaterials_look [OF len same i, of tissueOpacity]
    show "map mesh_material (updateTissueMaterials tissueOpacity ms') ! i
            = map mesh_material (updateTissueMaterials tissueOpacity ms) ! i"
      using i i' by simp
  qed
  have v: "map mesh_visible (updateTissueMaterials tissueOpacity ms')
             = map mesh_visible (updateTissueMaterials tissueOpacity ms)"
  proof (rule nth_equalityI)
    show "length (map mesh_visible (updateTissueMaterials tissueOpacity ms'))
            = length (map mesh_visible (updateTissueMaterials tissueOpacity ms))"
      by (simp add: len)
  next
    fix i
    assume "i < length (map mesh_visible (updateTissueMaterials tissueOpacity ms'))"
    then have i: "i < length ms" by (simp add: len)
    then have i': "i < length ms'" by (simp add: len)
    from updateTissueMaterials_look [OF len same i, of tissueOpacity]
    show "map mesh_visible (updateTissueMaterials tissueOpacity ms') ! i
            = map mesh_visible (updateTissueMaterials tissueOpacity ms) ! i"
      using i i' by simp
  qed
  have p: "\<forall>i<length ms. \<forall>v. i < length tissueOrder \<and>
                                tissueOpacity (tissueOrder ! i) = Some v \<longrightarrow>
            mesh_material (updateTissueMaterials tissueOpacity ms ! i)
              = newMaterial (tissueOrder ! i) v \<and>
            mesh_visible (updateTissueMaterials tissueOpacity ms ! i) = (v > 0)"
    by (simp add: updateTissueMaterials_nth styleMesh_def tissueKeyAt_def)
  have u: "\<forall>i<length ms. i \<ge> length tissueOrder \<or> tissueOpacity (tissueOrder ! i) = None
            \<longrightarrow> updateTissueMaterials tissueOpacity ms ! i = ms ! i"
    by (auto simp: updateTissueMaterials_nth styleMesh_def tissueKeyAt_def)
  show ?thesis
    by (intro conjI l n m v p u r)
qed

theorem tissue_identity_by_position_witness:
  "length [organs_mesh] = length [body_mesh] \<and>
   mesh_name organs_mesh \<noteq> mesh_name body_mesh \<and>
   map mesh_material (updateTissueMaterials DEFAULT_OPACITY [organs_mesh])
     = map mesh_material (updateTissueMaterials DEFAULT_OPACITY [body_mesh]) \<and>
   mesh_material (updateTissueMaterials DEFAULT_OPACITY [body_mesh] ! 0)
     = newMaterial ''body'' (35 / 100)"
  using tissue_identity_by_position
          [of "[organs_mesh]" "[body_mesh]" DEFAULT_OPACITY demo_model]
  by (simp add: organs_mesh_def body_mesh_def tissueOrder_def DEFAULT_OPACITY_def)

text \<open>
  The claim as stated fails: a model whose only mesh is the organs mesh (named
  \<open>organs\<close>) is drawn with the colour and the opacity of the body, the first entry of
  the order, and not with those its name stands for.
\<close>

theorem tissue_identity_counterexample:
  "map (mat_color \<circ> mesh_material) (updateTissueMaterials DEFAULT_OPACITY [organs_mesh])
     = [0xC8C8C8] \<and>
   map (mat_opacity \<circ> mesh_material) (updateTissueMaterials DEFAULT_OPACITY [organs_mesh])
     = [35 / 100] \<and>
   mat_color (mesh_material (styleByLabel DEFAULT_OPACITY organs_mesh)) = 0x0080FF \<and>
   mat_opacity (mesh_material (styleByLabel DEFAULT_OPACITY organs_mesh)) = 1 \<and>
   updateTissueMaterials DEFAULT_OPACITY [organs_mesh]
     \<noteq> map (styleByLabel DEFAULT_OPACITY) [organs_mesh]"
  by (simp add: updateTissueMaterials_def enumerate_eq_zip styleMesh_def tissueKeyAt_def
      tissueOrder_def DEFAULT_OPACITY_def newMaterial_def tissueColors_def styleByLabel_def
      organs_mesh_def glbMaterial_def)

subsection \<open>Fat distribution percentage\<close>

lemma fat_distribution_percentage_total:
  "fat_distribution_percentage v s = Some (if v + s = 0 then 0 else v / (v + s) * 100)"
  by (simp add: fat_distribution_percentage_def checked_div_def)

text \<open>
  C2. The aggregation always yields a result (no division by zero happens); its
  percentage is visceral volume / (visceral volume + subcutaneous volume) times 100
  when that sum is not zero, and 0 when both totals are zero. For three slices with
  spacing (1 mm, 1 mm, 2 mm) and 100 visceral fat voxels on each slice, the visceral
  area of each slice is 1 square cm, the total visceral volume is 0.6 cubic cm, the
  subcutaneous total is 0 and the percentage is 100.
\<close>

theorem fat_distribution_percentage_formula:
  "(\<exists>ts. aggregate sp counts = Some ts \<and>
      (total_visceral_fat_volume ts + total_subcutaneous_fat_volume ts \<noteq> 0 \<longrightarrow>
         visceral_fat_percentage ts =
           total_visceral_fat_volume ts /
             (total_visceral_fat_volume ts + total_subcutaneous_fat_volume ts) * 100) \<and>
      (total_visceral_fat_volume ts = 0 \<and> total_subcutaneous_fat_volume ts = 0 \<longrightarrow>
         visceral_fat_percentage ts = 0)) \<and>
   map_option total_visceral_fat_volume
       (aggregate example_spacing [(100, 0), (100, 0), (100, 0)]) = Some (6 / 10) \<and>
   map_option total_subcutaneous_fat_volume
       (aggregate example_spacing [(100, 0), (100, 0), (100, 0)]) = Some 0 \<and>
   map_option visceral_fat_percentage
       (aggregate example_spacing [(100, 0), (100, 0), (100, 0)]) = Some 100 \<and>
   map_option (map visceral_fat_area_cm2 \<circ> slice_stats)
       (aggregate example_spacing [(100, 0), (100, 0), (100, 0)]) = Some [1, 1, 1]"
  by (simp add: aggregate_def fat_distribution_percentage_total Let_def example_spacing_def
      slice_volume_cm3_def slice_area_cm2_def sliceStatsOf_def enumerate_eq_zip)

theorem fat_distribution_percentage_formula_witness:
  "aggregate example_spacing [] =
     Some \<lparr> total_visceral_fat_volume = 0, total_subcutaneous_fat_volume = 0,
            visceral_fat_percentage = 0, slice_stats = [] \<rparr> \<and>
   map_option visceral_fat_percentage (aggregate example_spacing [(30, 10)]) = Some 75"
  using fat_distribution_percentage_formula [of example_spacing "[]"]
        fat_distribution_percentage_formula [of example_spacing "[(30, 10)]"]
  by (simp add: aggregate_def fat_distribution_percentage_total Let_def example_spacing_def
      slice_volume_cm3_def slice_area_cm2_def sliceStatsOf_def enumerate_eq_zip)

end
